theory Spec2Isabelle
  imports Main
begin

section \<open>The webtoon service of server.js\<close>

text \<open>
  A shallow embedding of \<^verbatim>\<open>src/server.js\<close>: the in-memory user list, the two
  credential routes, the JWT middleware and the four webtoon routes. A handler is a
  function from the server's state and the request to the response and the new state;
  the registration handler, which writes after an \<^verbatim>\<open>await\<close>, is two such steps, and the
  process is a step function over the events it sees.
  What a handler reads from outside the program is an argument: the clock
  (\<^verbatim>\<open>Date.now()\<close>, in milliseconds), the salt bcrypt draws, the ObjectId the driver
  generates for a new document.

  The four libraries the file calls (bcryptjs, jsonwebtoken, mongoose,
  express-rate-limit) are not part of the repository. Each is modelled by a small
  executable definition, marked as a library model, that keeps the behaviour the
  handlers depend on. Request bodies are taken in the shape the routes expect:
  \<^verbatim>\<open>username\<close> and \<^verbatim>\<open>password\<close> are strings, a webtoon field is a string or absent.
\<close>

subsection \<open>JavaScript strings and arrays\<close>

text \<open>\<^verbatim>\<open>s.split(c)\<close> for a one-character separator: never the empty array.\<close>

fun split_js :: "char \<Rightarrow> string \<Rightarrow> string list" where
  "split_js c [] = [[]]"
| "split_js c (x # xs) =
     (if x = c then [] # split_js c xs
      else (case split_js c xs of [] \<Rightarrow> [[x]] | y # ys \<Rightarrow> (x # y) # ys))"

text \<open>\<^verbatim>\<open>xs[i]\<close>: \<^verbatim>\<open>undefined\<close> (here \<open>None\<close>) past the end.\<close>

definition index_js :: "'a list \<Rightarrow> nat \<Rightarrow> 'a option" where
  "index_js xs i = (if i < length xs then Some (xs ! i) else None)"

subsection \<open>Errors and responses\<close>

datatype exn =
    TypeError
  | JsonWebTokenError string
  | TokenExpiredError
  | NotBeforeError
  | CastError string
  | ValidationError
  | MongoError

record webtoon =
  oid :: string
  title :: string
  description :: string
  characters :: "string option"

datatype json_body =
    ErrorJson string
  | ErrorMessageJson exn
  | ErrorsJson "string list"
  | TokenJson string string
  | MessageJson string
  | WebtoonJson webtoon
  | WebtoonsJson "webtoon list"
  | TooManyRequestsText

text \<open>
  \<open>ErrorJson m\<close> is \<^verbatim>\<open>{ error: m }\<close>, \<open>ErrorMessageJson e\<close> is
  \<^verbatim>\<open>{ error: error.message }\<close> for the caught error \<open>e\<close>, \<open>ErrorsJson ms\<close> is
  \<^verbatim>\<open>{ errors: errors.array() }\<close> (each validation error by its message),
  \<open>TokenJson m t\<close> is \<^verbatim>\<open>{ message: m, token: t }\<close>. \<^verbatim>\<open>res.json\<close> alone answers 200.
\<close>

datatype response = Response (status: nat) (body: json_body)

subsection \<open>Library model: bcryptjs\<close>

text \<open>
  \<^verbatim>\<open>bcrypt.hash(s, rounds)\<close> draws a salt and derives the digest from the cost, the salt
  and the password, of which bcrypt reads the first 72 bytes; the hash string carries the
  cost and the salt. \<^verbatim>\<open>bcrypt.compare(s, hash)\<close> derives the digest of \<open>s\<close> again under
  the cost and salt of \<open>hash\<close> and compares. The digest is symbolic: the triple itself.
\<close>

datatype hashed = Hashed (cost: nat) (salt: string) (digest: string)

definition bcrypt_hash :: "string \<Rightarrow> nat \<Rightarrow> string \<Rightarrow> hashed" where
  "bcrypt_hash s rounds drawn_salt = Hashed rounds drawn_salt (take 72 s)"

definition bcrypt_compare :: "string \<Rightarrow> hashed \<Rightarrow> bool" where
  "bcrypt_compare s h = (bcrypt_hash s (cost h) (salt h) = h)"

subsection \<open>Library model: jsonwebtoken\<close>

text \<open>
  A token is the string \<^verbatim>\<open>header.payload.signature\<close>. In the library each segment is
  base64url text; here \<open>seg_encode\<close> stands for base64url (a byte is written as its
  eight bits), so a segment has neither a dot nor a space, and the signature is a symbolic
  MAC of the algorithm, the key and the signing input. The header names the algorithm;
  with a string secret and the default options \<^verbatim>\<open>jwt.verify\<close> admits HS256, HS384 and
  HS512. The payload holds the claims this service writes, \<^verbatim>\<open>username\<close>, \<^verbatim>\<open>iat\<close> and
  \<^verbatim>\<open>exp\<close>, the claim \<^verbatim>\<open>nbf\<close> that \<^verbatim>\<open>jwt.verify\<close> also reads (times in seconds),
  and \<open>claim_rest\<close>, the text of every other member of the payload object. In a token
  made elsewhere \<^verbatim>\<open>username\<close>, \<^verbatim>\<open>nbf\<close> and \<^verbatim>\<open>exp\<close> may be missing.
\<close>

definition bit_char :: "bool \<Rightarrow> char" where
  "bit_char b = (if b then CHR ''1'' else CHR ''0'')"

fun seg_encode :: "string \<Rightarrow> string" where
  "seg_encode [] = []"
| "seg_encode (c # cs) =
     map bit_char [digit0 c, digit1 c, digit2 c, digit3 c, digit4 c, digit5 c, digit6 c, digit7 c]
       @ seg_encode cs"

definition is_bit :: "char \<Rightarrow> bool" where
  "is_bit c = (c = CHR ''0'' \<or> c = CHR ''1'')"

fun seg_decode :: "string \<Rightarrow> string option" where
  "seg_decode [] = Some []"
| "seg_decode (a # b # c # d # e # f # g # h # rest) =
     (if list_all is_bit [a, b, c, d, e, f, g, h]
      then map_option
             ((#) (Char (a = CHR ''1'') (b = CHR ''1'') (c = CHR ''1'') (d = CHR ''1'')
                        (e = CHR ''1'') (f = CHR ''1'') (g = CHR ''1'') (h = CHR ''1'')))
             (seg_decode rest)
      else None)"
| "seg_decode _ = None"

definition digit_char :: "nat \<Rightarrow> char" where
  "digit_char d = char_of (48 + d)"

definition digit_val :: "char \<Rightarrow> nat option" where
  "digit_val c =
     (let n = (of_char c :: nat) in if 48 \<le> n \<and> n \<le> 57 then Some (n - 48) else None)"

fun show_nat :: "nat \<Rightarrow> string" where
  "show_nat n = (if n < 10 then [digit_char n] else show_nat (n div 10) @ [digit_char (n mod 10)])"

declare show_nat.simps [simp del]

fun read_digits :: "nat \<Rightarrow> string \<Rightarrow> nat option" where
  "read_digits acc [] = Some acc"
| "read_digits acc (c # cs) =
     (case digit_val c of None \<Rightarrow> None | Some d \<Rightarrow> read_digits (acc * 10 + d) cs)"

definition read_nat :: "string \<Rightarrow> nat option" where
  "read_nat s = (if s = [] then None else read_digits 0 s)"

record payload =
  claim_username :: "string option"
  claim_iat :: nat
  claim_nbf :: "nat option"
  claim_exp :: "nat option"
  claim_rest :: string

definition encode_seconds :: "nat option \<Rightarrow> string" where
  "encode_seconds t = (case t of None \<Rightarrow> ''-'' | Some n \<Rightarrow> show_nat n)"

definition encode_payload :: "payload \<Rightarrow> string" where
  "encode_payload p =
     (case claim_username p of None \<Rightarrow> ''-'' | Some u \<Rightarrow> CHR ''u'' # seg_encode u)
     @ ''_'' @ show_nat (claim_iat p)
     @ ''_'' @ encode_seconds (claim_nbf p)
     @ ''_'' @ encode_seconds (claim_exp p)
     @ ''_'' @ seg_encode (claim_rest p)"

definition decode_username :: "string \<Rightarrow> string option option" where
  "decode_username s =
     (if s = ''-'' then Some None
      else (case s of [] \<Rightarrow> None
            | c # cs \<Rightarrow> if c = CHR ''u'' then map_option Some (seg_decode cs) else None))"

definition decode_seconds :: "string \<Rightarrow> nat option option" where
  "decode_seconds s = (if s = ''-'' then Some None else map_option Some (read_nat s))"

definition decode_payload :: "string \<Rightarrow> payload option" where
  "decode_payload s =
     (case split_js (CHR ''_'') s of
        [a, b, c, d, e] \<Rightarrow>
          (case (decode_username a, read_nat b, decode_seconds c, decode_seconds d,
                 seg_decode e) of
             (Some u, Some i, Some n, Some x, Some r) \<Rightarrow>
               Some \<lparr>claim_username = u, claim_iat = i, claim_nbf = n, claim_exp = x,
                     claim_rest = r\<rparr>
           | _ \<Rightarrow> None)
      | _ \<Rightarrow> None)"

datatype alg = HS256 | HS384 | HS512

fun alg_name :: "alg \<Rightarrow> string" where
  "alg_name HS256 = ''HS256''"
| "alg_name HS384 = ''HS384''"
| "alg_name HS512 = ''HS512''"

definition jwt_header :: "alg \<Rightarrow> string" where
  "jwt_header a = seg_encode (alg_name a)"

definition decode_header :: "string \<Rightarrow> alg option" where
  "decode_header h =
     (if h = jwt_header HS256 then Some HS256
      else if h = jwt_header HS384 then Some HS384
      else if h = jwt_header HS512 then Some HS512
      else None)"

definition hmac :: "alg \<Rightarrow> string \<Rightarrow> string \<Rightarrow> string" where
  "hmac a key msg = seg_encode (alg_name a) @ ''_'' @ seg_encode key @ ''_'' @ seg_encode msg"

definition jwt_encode :: "alg \<Rightarrow> payload \<Rightarrow> string \<Rightarrow> string" where
  "jwt_encode a p key =
     (let signing_input = jwt_header a @ ''.'' @ encode_payload p
      in signing_input @ ''.'' @ hmac a key signing_input)"

text \<open>
  \<^verbatim>\<open>jwt.sign({ username }, secret, { expiresIn })\<close> at clock \<open>now\<close> (milliseconds):
  the algorithm is HS256, \<^verbatim>\<open>iat = Math.floor(Date.now() / 1000)\<close> and
  \<^verbatim>\<open>exp = iat + expiresIn\<close>, the time span given in milliseconds as the \<^verbatim>\<open>ms\<close>
  package reads \<^verbatim>\<open>'1h'\<close>.
\<close>

definition jwt_sign :: "string \<Rightarrow> string \<Rightarrow> nat \<Rightarrow> nat \<Rightarrow> string" where
  "jwt_sign uname secret expiresIn now =
     (let timestamp = now div 1000
      in jwt_encode HS256
           \<lparr>claim_username = Some uname, claim_iat = timestamp, claim_nbf = None,
            claim_exp = Some (timestamp + expiresIn div 1000), claim_rest = []\<rparr> secret)"

text \<open>
  \<^verbatim>\<open>jwt.verify(token, secret)\<close> at clock \<open>now\<close>, with the default options. Each of these
  throws: a missing or empty token, a token that is not three segments, an undecodable
  payload, a header that names none of the three algorithms, a signature that is not the
  MAC of the first two segments under \<open>secret\<close>, \<^verbatim>\<open>nbf > Math.floor(Date.now() / 1000)\<close>,
  and \<^verbatim>\<open>Math.floor(Date.now() / 1000) >= exp\<close>. Otherwise the payload is returned.
\<close>

definition jwt_verify :: "string option \<Rightarrow> string \<Rightarrow> nat \<Rightarrow> exn + payload" where
  "jwt_verify jwtString secret now =
     (case jwtString of
        None \<Rightarrow> Inl (JsonWebTokenError ''jwt must be provided'')
      | Some tok \<Rightarrow>
          if tok = [] then Inl (JsonWebTokenError ''jwt must be provided'')
          else
            (case split_js (CHR ''.'') tok of
               [h, p, s] \<Rightarrow>
                 (case decode_payload p of
                    None \<Rightarrow> Inl (JsonWebTokenError ''invalid token'')
                  | Some pl \<Rightarrow>
                      (case decode_header h of
                         None \<Rightarrow> Inl (JsonWebTokenError ''invalid algorithm'')
                       | Some a \<Rightarrow>
                           if s \<noteq> hmac a secret (h @ ''.'' @ p)
                           then Inl (JsonWebTokenError ''invalid signature'')
                           else if (case claim_nbf pl of
                                      None \<Rightarrow> False
                                    | Some n \<Rightarrow> n > now div 1000)
                             then Inl NotBeforeError
                           else if (case claim_exp pl of
                                      None \<Rightarrow> False
                                    | Some e \<Rightarrow> now div 1000 \<ge> e)
                             then Inl TokenExpiredError
                           else Inr pl))
             | _ \<Rightarrow> Inl (JsonWebTokenError ''jwt malformed'')))"

subsection \<open>Library model: mongoose\<close>

text \<open>
  The schema declares no \<^verbatim>\<open>_id\<close>, so it is an ObjectId: twelve bytes. A query by id
  first casts the string it is given: a string of 24 hexadecimal digits is decoded to its
  twelve bytes, and any other string makes the query throw a \<^verbatim>\<open>CastError\<close>. (Releases of
  the driver before bson 6 also took any string of 12 characters as the bytes themselves;
  the cast here is the one of the current release.) \<open>connected\<close> says whether the
  database answers; when it does not, an operation throws. \<^verbatim>\<open>save\<close> first runs the
  schema's validators: \<^verbatim>\<open>required\<close> on a string refuses the empty string.
\<close>

definition hex_val :: "char \<Rightarrow> nat option" where
  "hex_val c =
     (let n = (of_char c :: nat)
      in if 48 \<le> n \<and> n \<le> 57 then Some (n - 48)
         else if 65 \<le> n \<and> n \<le> 70 then Some (n - 55)
         else if 97 \<le> n \<and> n \<le> 102 then Some (n - 87)
         else None)"

fun unhex :: "string \<Rightarrow> string option" where
  "unhex [] = Some []"
| "unhex (a # b # rest) =
     (case (hex_val a, hex_val b) of
        (Some x, Some y) \<Rightarrow> map_option ((#) (char_of (x * 16 + y))) (unhex rest)
      | _ \<Rightarrow> None)"
| "unhex _ = None"

definition castObjectId :: "string \<Rightarrow> string option" where
  "castObjectId s = (if length s = 24 then unhex s else None)"

subsection \<open>The state of the process\<close>

record user =
  username :: string
  password :: hashed

record counter =
  count :: nat
  windowStart :: nat

text \<open>
  \<open>users\<close> is the array \<^verbatim>\<open>users\<close> of the file, \<open>webtoons\<close> the collection behind the
  \<^verbatim>\<open>Webtoon\<close> model, \<open>hits\<close> the store of the rate limiter. \<open>awaiting\<close> holds the
  registrations that are suspended at \<^verbatim>\<open>await bcrypt.hash\<close>, each with the
  \<^verbatim>\<open>username\<close> and \<^verbatim>\<open>password\<close> its handler has read: while one waits, the process
  takes other requests.
\<close>

record server =
  users :: "user list"
  webtoons :: "webtoon list"
  connected :: bool
  hits :: "string \<rightharpoonup> counter"
  awaiting :: "(string \<times> string) list"

definition find_all :: "server \<Rightarrow> exn + webtoon list" where
  "find_all st = (if connected st then Inr (webtoons st) else Inl MongoError)"

definition findById :: "server \<Rightarrow> string \<Rightarrow> exn + webtoon option" where
  "findById st wid =
     (case castObjectId wid of
        None \<Rightarrow> Inl (CastError wid)
      | Some k \<Rightarrow>
          if connected st then Inr (find (\<lambda>w. oid w = k) (webtoons st)) else Inl MongoError)"

definition save :: "server \<Rightarrow> webtoon \<Rightarrow> exn + server" where
  "save st w =
     (if title w = [] \<or> description w = [] then Inl ValidationError
      else if \<not> connected st then Inl MongoError
      else if find (\<lambda>v. oid v = oid w) (webtoons st) \<noteq> None then Inl MongoError
      else Inr (st\<lparr>webtoons := webtoons st @ [w]\<rparr>))"

definition findByIdAndDelete :: "server \<Rightarrow> string \<Rightarrow> exn + webtoon option \<times> server" where
  "findByIdAndDelete st wid =
     (case castObjectId wid of
        None \<Rightarrow> Inl (CastError wid)
      | Some k \<Rightarrow>
          if \<not> connected st then Inl MongoError
          else
            (case find (\<lambda>w. oid w = k) (webtoons st) of
               None \<Rightarrow> Inr (None, st)
             | Some w \<Rightarrow> Inr (Some w, st\<lparr>webtoons := remove1 w (webtoons st)\<rparr>)))"

subsection \<open>The middleware\<close>

definition JWT_SECRET :: string where
  "JWT_SECRET = ''my-secret-key''"

definition ms_1h :: nat where
  "ms_1h = 60 * 60 * 1000"

text \<open>
  \<^verbatim>\<open>authenticateJWT\<close>: \<open>token\<close> is \<^verbatim>\<open>req.header('Authorization')\<close>, \<open>None\<close> when the
  request has no such header. The inner \<open>case\<close> is the \<^verbatim>\<open>try\<close> block, where
  \<^verbatim>\<open>token.split\<close> on \<^verbatim>\<open>undefined\<close> throws a \<^verbatim>\<open>TypeError\<close>; the outer one is the
  \<^verbatim>\<open>catch\<close>, which answers every error alike. \<open>Inr verified\<close> is the call of
  \<^verbatim>\<open>next()\<close> with \<^verbatim>\<open>req.user = verified\<close>.
\<close>

definition authenticateJWT :: "string option \<Rightarrow> nat \<Rightarrow> response + payload" where
  "authenticateJWT token now =
     (case (case token of
              None \<Rightarrow> Inl TypeError
            | Some t \<Rightarrow>
                (let extractedToken = index_js (split_js (CHR '' '') t) 1
                 in jwt_verify extractedToken JWT_SECRET now)) of
        Inl err \<Rightarrow> Inl (Response 400 (ErrorJson ''Invalid token provided''))
      | Inr verified \<Rightarrow> Inr verified)"

record webtoon_input =
  body_title :: "string option"
  body_description :: "string option"
  body_characters :: "string option"

text \<open>
  \<^verbatim>\<open>validateWebtoon\<close> with \<^verbatim>\<open>validationResult\<close>: the messages of the failed checks. A
  field of the body is a string or absent, so \<^verbatim>\<open>isString\<close> fails on the absent ones and
  the optional \<^verbatim>\<open>characters\<close> never fails.
\<close>

definition validateWebtoon :: "webtoon_input \<Rightarrow> string list" where
  "validateWebtoon b =
     (if body_title b = None then [''Title must be a string''] else [])
     @ (if body_description b = None then [''Description must be a string''] else [])"

subsection \<open>The routes\<close>

text \<open>
  \<^verbatim>\<open>POST /register\<close> runs in two steps. \<open>register_check\<close> is the handler up to
  \<^verbatim>\<open>await bcrypt.hash\<close>: the answer when the user exists, \<open>None\<close> when the handler goes
  on to hash. \<open>register_resume\<close> is the handler from the moment the hash is there: it
  pushes the new user, signs the token and answers, on the state the process is in by
  then. \<open>post_register\<close> is the two steps with nothing in between.
\<close>

definition register_check :: "server \<Rightarrow> string \<Rightarrow> response option" where
  "register_check st uname =
     (case find (\<lambda>user. username user = uname) (users st) of
        Some existingUser \<Rightarrow> Some (Response 400 (ErrorJson ''User already exists''))
      | None \<Rightarrow> None)"

definition register_resume ::
  "server \<Rightarrow> string \<Rightarrow> string \<Rightarrow> string \<Rightarrow> nat \<Rightarrow> response \<times> server" where
  "register_resume st uname pw drawn_salt now =
     (let hashedPassword = bcrypt_hash pw 10 drawn_salt;
          newUser = \<lparr>username = uname, password = hashedPassword\<rparr>;
          st' = st\<lparr>users := users st @ [newUser]\<rparr>;
          token = jwt_sign (username newUser) JWT_SECRET ms_1h now
      in (Response 200 (TokenJson ''User registered successfully'' token), st'))"

definition post_register :: "server \<Rightarrow> string \<Rightarrow> string \<Rightarrow> string \<Rightarrow> nat \<Rightarrow> response \<times> server" where
  "post_register st uname pw drawn_salt now =
     (case register_check st uname of
        Some rejection \<Rightarrow> (rejection, st)
      | None \<Rightarrow> register_resume st uname pw drawn_salt now)"

text \<open>
  \<^verbatim>\<open>POST /login\<close> also awaits, at \<^verbatim>\<open>bcrypt.compare\<close>, but it has read \<^verbatim>\<open>users\<close> before
  and writes nothing after, so it is one step.
\<close>

definition post_login :: "server \<Rightarrow> string \<Rightarrow> string \<Rightarrow> nat \<Rightarrow> response" where
  "post_login st uname pw now =
     (case find (\<lambda>user. username user = uname) (users st) of
        None \<Rightarrow> Response 400 (ErrorJson ''Invalid credentials'')
      | Some user \<Rightarrow>
          (let isMatch = bcrypt_compare pw (password user)
           in if \<not> isMatch then Response 400 (ErrorJson ''Invalid credentials'')
              else
                (let token = jwt_sign (username user) JWT_SECRET ms_1h now
                 in Response 200 (TokenJson ''Logged in successfully'' token))))"

definition get_webtoons :: "server \<Rightarrow> response" where
  "get_webtoons st =
     (case find_all st of
        Inl error \<Rightarrow> Response 500 (ErrorMessageJson error)
      | Inr ws \<Rightarrow> Response 200 (WebtoonsJson ws))"

definition get_webtoon :: "server \<Rightarrow> string \<Rightarrow> response" where
  "get_webtoon st wid =
     (case findById st wid of
        Inl error \<Rightarrow> Response 500 (ErrorMessageJson error)
      | Inr None \<Rightarrow> Response 404 (ErrorJson ''Webtoon not found'')
      | Inr (Some w) \<Rightarrow> Response 200 (WebtoonJson w))"

text \<open>
  \<^verbatim>\<open>POST /webtoons\<close>: \<^verbatim>\<open>authenticateJWT\<close>, then the validators, then the handler.
  \<open>new_oid\<close> is the \<^verbatim>\<open>_id\<close> that \<^verbatim>\<open>new Webtoon\<close> generates.
\<close>

definition post_webtoons ::
  "server \<Rightarrow> string option \<Rightarrow> webtoon_input \<Rightarrow> string \<Rightarrow> nat \<Rightarrow> response \<times> server" where
  "post_webtoons st token b new_oid now =
     (case authenticateJWT token now of
        Inl rejection \<Rightarrow> (rejection, st)
      | Inr verified \<Rightarrow>
          (let errors = validateWebtoon b
           in if errors \<noteq> [] then (Response 400 (ErrorsJson errors), st)
              else
                (case (body_title b, body_description b) of
                   (Some t, Some d) \<Rightarrow>
                     (let newWebtoon =
                            \<lparr>oid = new_oid, title = t, description = d,
                             characters = body_characters b\<rparr>
                      in case save st newWebtoon of
                           Inl error \<Rightarrow> (Response 500 (ErrorMessageJson error), st)
                         | Inr st' \<Rightarrow> (Response 201 (WebtoonJson newWebtoon), st'))
                 | _ \<Rightarrow> (Response 400 (ErrorsJson errors), st))))"

definition delete_webtoon :: "server \<Rightarrow> string option \<Rightarrow> string \<Rightarrow> nat \<Rightarrow> response \<times> server" where
  "delete_webtoon st token wid now =
     (case authenticateJWT token now of
        Inl rejection \<Rightarrow> (rejection, st)
      | Inr verified \<Rightarrow>
          (case findByIdAndDelete st wid of
             Inl error \<Rightarrow> (Response 500 (ErrorMessageJson error), st)
           | Inr (None, st') \<Rightarrow> (Response 404 (ErrorJson ''Webtoon not found''), st')
           | Inr (Some w, st') \<Rightarrow> (Response 200 (MessageJson ''Webtoon deleted successfully''), st')))"

subsection \<open>The rate limiter\<close>

text \<open>The configuration in the file: \<^verbatim>\<open>windowMs: 15 * 60 * 1000\<close> and \<^verbatim>\<open>max: 100\<close>.\<close>

definition windowMs :: nat where
  "windowMs = 15 * 60 * 1000"

definition max_per_window :: nat where
  "max_per_window = 100"

datatype admission = Admit | TooManyRequests

text \<open>
  Modelled from the spec: the store and the middleware of express-rate-limit, which the
  file only configures. The step is the one of the specification's admission gate, per
  origin: with no tracking entry for the origin, or when the window has elapsed since
  \<open>windowStart\<close>, the entry is reset to \<open>count = 1\<close>, \<open>windowStart = now\<close> and the
  request is admitted; otherwise \<open>count\<close> is incremented, and the request is rejected
  with \<open>TooManyRequests\<close> when \<open>count\<close> exceeds the ceiling and admitted when not.
\<close>

definition limiter ::
  "(string \<rightharpoonup> counter) \<Rightarrow> string \<Rightarrow> nat \<Rightarrow> admission \<times> (string \<rightharpoonup> counter)" where
  "limiter tracking key now =
     (case tracking key of
        None \<Rightarrow> (Admit, tracking(key \<mapsto> \<lparr>count = 1, windowStart = now\<rparr>))
      | Some c \<Rightarrow>
          if now - windowStart c \<ge> windowMs
          then (Admit, tracking(key \<mapsto> \<lparr>count = 1, windowStart = now\<rparr>))
          else
            (let c' = c\<lparr>count := count c + 1\<rparr>
             in (if count c' > max_per_window then TooManyRequests else Admit,
                 tracking(key \<mapsto> c'))))"

text \<open>
  The requests of one origin at the given times, in order: the verdict on each
  (\<open>admissions\<close>) and the store after the last (\<open>tracked\<close>).
\<close>

fun admissions :: "(string \<rightharpoonup> counter) \<Rightarrow> string \<Rightarrow> nat list \<Rightarrow> admission list" where
  "admissions tracking key [] = []"
| "admissions tracking key (t # ts) =
     (case limiter tracking key t of (a, tracking') \<Rightarrow> a # admissions tracking' key ts)"

fun tracked :: "(string \<rightharpoonup> counter) \<Rightarrow> string \<Rightarrow> nat list \<Rightarrow> (string \<rightharpoonup> counter)" where
  "tracked tracking key [] = tracking"
| "tracked tracking key (t # ts) = tracked (snd (limiter tracking key t)) key ts"

subsection \<open>The application\<close>

text \<open>
  A request has an origin (\<^verbatim>\<open>req.ip\<close>, the limiter's key), the time it arrives at, and
  a route with what the route reads. \<^verbatim>\<open>app.use(limiter)\<close> comes before every route. The
  answer is \<open>None\<close> when the handler is suspended and has not answered yet.
\<close>

datatype route =
    PostRegister string string
  | PostLogin string string
  | GetWebtoons
  | GetWebtoon string
  | PostWebtoons "string option" webtoon_input string
  | DeleteWebtoon "string option" string

record request =
  ip :: string
  clock :: nat
  route :: route

fun dispatch :: "server \<Rightarrow> route \<Rightarrow> nat \<Rightarrow> response option \<times> server" where
  "dispatch st (PostRegister uname pw) now =
     (case register_check st uname of
        Some rejection \<Rightarrow> (Some rejection, st)
      | None \<Rightarrow> (None, st\<lparr>awaiting := awaiting st @ [(uname, pw)]\<rparr>))"
| "dispatch st (PostLogin uname pw) now = (Some (post_login st uname pw now), st)"
| "dispatch st GetWebtoons now = (Some (get_webtoons st), st)"
| "dispatch st (GetWebtoon wid) now = (Some (get_webtoon st wid), st)"
| "dispatch st (PostWebtoons token b new_oid) now =
     (case post_webtoons st token b new_oid now of (r, st') \<Rightarrow> (Some r, st'))"
| "dispatch st (DeleteWebtoon token wid) now =
     (case delete_webtoon st token wid now of (r, st') \<Rightarrow> (Some r, st'))"

definition app :: "server \<Rightarrow> request \<Rightarrow> response option \<times> server" where
  "app st rq =
     (case limiter (hits st) (ip rq) (clock rq) of
        (TooManyRequests, tracking) \<Rightarrow>
          (Some (Response 429 TooManyRequestsText), st\<lparr>hits := tracking\<rparr>)
      | (Admit, tracking) \<Rightarrow> dispatch (st\<lparr>hits := tracking\<rparr>) (route rq) (clock rq))"

text \<open>
  The hash of the suspended registration number \<open>i\<close> is there, computed with the salt
  bcrypt drew: its handler resumes at clock \<open>now\<close>.
\<close>

definition resume :: "server \<Rightarrow> nat \<Rightarrow> string \<Rightarrow> nat \<Rightarrow> response option \<times> server" where
  "resume st i drawn_salt now =
     (if i < length (awaiting st)
      then (case awaiting st ! i of
              (uname, pw) \<Rightarrow>
                (case register_resume
                        (st\<lparr>awaiting := take i (awaiting st) @ drop (Suc i) (awaiting st)\<rparr>)
                        uname pw drawn_salt now of
                   (r, st') \<Rightarrow> (Some r, st')))
      else (None, st))"

text \<open>
  What the process does, one event at a time: a request arrives, or the hash of a
  suspended registration is ready. \<open>run\<close> is the state after the events, \<open>answers\<close>
  the answer that each event sends.
\<close>

datatype event =
    Arrives request
  | HashResolves nat string nat

fun step :: "server \<Rightarrow> event \<Rightarrow> response option \<times> server" where
  "step st (Arrives rq) = app st rq"
| "step st (HashResolves i drawn_salt now) = resume st i drawn_salt now"

fun run :: "server \<Rightarrow> event list \<Rightarrow> server" where
  "run st [] = st"
| "run st (ev # evs) = run (snd (step st ev)) evs"

fun answers :: "server \<Rightarrow> event list \<Rightarrow> response option list" where
  "answers st [] = []"
| "answers st (ev # evs) = fst (step st ev) # answers (snd (step st ev)) evs"

text \<open>A process that has just started, on an empty collection.\<close>

definition empty_server :: server where
  "empty_server =
     \<lparr>users = [], webtoons = [], connected = True, hits = Map.empty, awaiting = []\<rparr>"

section \<open>Properties of the library models\<close>

lemma split_js_nonempty: "split_js c s \<noteq> []"
  by (induction s) (auto split: list.splits)

lemma split_js_plain: "c \<notin> set a \<Longrightarrow> split_js c a = [a]"
  by (induction a) auto

lemma split_js_append: "c \<notin> set a \<Longrightarrow> split_js c (a @ c # b) = a # split_js c b"
  by (induction a) auto

lemma set_seg_encode: "set (seg_encode s) \<subseteq> {CHR ''0'', CHR ''1''}"
  by (induction s) (auto simp: bit_char_def)

lemma seg_decode_encode: "seg_decode (seg_encode s) = Some s"
proof (induction s)
  case Nil
  show ?case by simp
next
  case (Cons c cs)
  then show ?case
    by (cases c) (simp add: bit_char_def is_bit_def)
qed

lemma digit_val_char: "d < 10 \<Longrightarrow> digit_val (digit_char d) = Some d"
  by (simp add: digit_val_def digit_char_def)

lemma read_digits_snoc:
  "d < 10 \<Longrightarrow> read_digits acc (xs @ [digit_char d]) =
     map_option (\<lambda>a. a * 10 + d) (read_digits acc xs)"
  by (induction xs arbitrary: acc) (auto simp: digit_val_char split: option.splits)

lemma read_digits_show: "read_digits 0 (show_nat n) = Some n"
proof (induction n rule: show_nat.induct)
  case (1 n)
  show ?case
  proof (cases "n < 10")
    case True
    then show ?thesis by (subst show_nat.simps) (simp add: digit_val_char)
  next
    case False
    with 1 have "read_digits 0 (show_nat (n div 10)) = Some (n div 10)" by blast
    with False show ?thesis
      by (subst show_nat.simps) (simp add: read_digits_snoc)
  qed
qed

lemma show_nat_nonempty: "show_nat n \<noteq> []"
  by (subst show_nat.simps) simp

lemma read_nat_show: "read_nat (show_nat n) = Some n"
  by (simp add: read_nat_def show_nat_nonempty read_digits_show)

lemma show_nat_chars: "c \<in> set (show_nat n) \<Longrightarrow> (48::nat) \<le> of_char c \<and> of_char c \<le> (57::nat)"
proof (induction n rule: show_nat.induct)
  case (1 n)
  show ?case
  proof (cases "n < 10")
    case True
    with 1(2) show ?thesis by (subst (asm) show_nat.simps) (simp add: digit_char_def)
  next
    case False
    with 1(2) have "c \<in> set (show_nat (n div 10)) \<or> c = digit_char (n mod 10)"
      by (subst (asm) show_nat.simps) auto
    then show ?thesis
    proof
      assume "c \<in> set (show_nat (n div 10))"
      with 1(1) False show ?thesis by blast
    next
      assume "c = digit_char (n mod 10)"
      then show ?thesis by (simp add: digit_char_def)
    qed
  qed
qed

lemma show_nat_no_sep: "CHR ''_'' \<notin> set (show_nat n)" "CHR ''.'' \<notin> set (show_nat n)"
  "CHR '' '' \<notin> set (show_nat n)" "show_nat n \<noteq> ''-''"
  using show_nat_chars[of "CHR ''_''" n] show_nat_chars[of "CHR ''.''" n]
    show_nat_chars[of "CHR '' ''" n] show_nat_chars[of "CHR ''-''" n]
  by auto

lemma seg_encode_no_sep:
  "CHR ''_'' \<notin> set (seg_encode s)" "CHR ''.'' \<notin> set (seg_encode s)"
  "CHR '' '' \<notin> set (seg_encode s)"
  using set_seg_encode [of s] by auto

lemma decode_username_encode:
  "decode_username (case u of None \<Rightarrow> ''-'' | Some v \<Rightarrow> CHR ''u'' # seg_encode v) = Some u"
  by (cases u) (simp_all add: decode_username_def seg_decode_encode)

lemma decode_seconds_encode: "decode_seconds (encode_seconds e) = Some e"
  by (cases e) (simp_all add: decode_seconds_def encode_seconds_def read_nat_show show_nat_no_sep)

lemma username_part_no_sep:
  "CHR ''_'' \<notin> set (case u of None \<Rightarrow> ''-'' | Some v \<Rightarrow> CHR ''u'' # seg_encode v)"
  "CHR ''.'' \<notin> set (case u of None \<Rightarrow> ''-'' | Some v \<Rightarrow> CHR ''u'' # seg_encode v)"
  "CHR '' '' \<notin> set (case u of None \<Rightarrow> ''-'' | Some v \<Rightarrow> CHR ''u'' # seg_encode v)"
  by (cases u; simp add: seg_encode_no_sep)+

lemma encode_seconds_no_sep:
  "CHR ''_'' \<notin> set (encode_seconds e)" "CHR ''.'' \<notin> set (encode_seconds e)"
  "CHR '' '' \<notin> set (encode_seconds e)"
  by (cases e; simp add: encode_seconds_def show_nat_no_sep)+

lemma split_encode_payload:
  "split_js (CHR ''_'') (encode_payload p) =
     [case claim_username p of None \<Rightarrow> ''-'' | Some v \<Rightarrow> CHR ''u'' # seg_encode v,
      show_nat (claim_iat p),
      encode_seconds (claim_nbf p),
      encode_seconds (claim_exp p),
      seg_encode (claim_rest p)]"
  unfolding encode_payload_def
  by (simp add: split_js_append split_js_plain username_part_no_sep encode_seconds_no_sep
      show_nat_no_sep seg_encode_no_sep)

lemma decode_encode_payload: "decode_payload (encode_payload p) = Some p"
  by (simp add: decode_payload_def split_encode_payload decode_username_encode
      decode_seconds_encode read_nat_show seg_decode_encode)

lemma encode_payload_no_sep:
  "CHR ''.'' \<notin> set (encode_payload p)" "CHR '' '' \<notin> set (encode_payload p)"
  by (simp_all add: encode_payload_def username_part_no_sep encode_seconds_no_sep
      show_nat_no_sep seg_encode_no_sep)

lemma jwt_header_no_sep: "CHR ''.'' \<notin> set (jwt_header a)" "CHR '' '' \<notin> set (jwt_header a)"
  by (simp_all add: jwt_header_def seg_encode_no_sep del: seg_encode.simps)

lemma decode_header_encode: "decode_header (jwt_header a) = Some a"
  by (cases a) (simp_all add: decode_header_def jwt_header_def bit_char_def)

lemma hmac_no_sep: "CHR ''.'' \<notin> set (hmac a k m)" "CHR '' '' \<notin> set (hmac a k m)"
  by (simp_all add: hmac_def seg_encode_no_sep del: seg_encode.simps)

lemma split_jwt_encode:
  "split_js (CHR ''.'') (jwt_encode a p k) =
     [jwt_header a, encode_payload p, hmac a k (jwt_header a @ ''.'' @ encode_payload p)]"
  by (simp add: jwt_encode_def Let_def split_js_append split_js_plain jwt_header_no_sep
      encode_payload_no_sep hmac_no_sep)

lemma jwt_encode_no_space: "CHR '' '' \<notin> set (jwt_encode a p k)"
  by (simp add: jwt_encode_def Let_def jwt_header_no_sep encode_payload_no_sep hmac_no_sep)

lemma jwt_encode_nonempty: "jwt_encode a p k \<noteq> []"
  by (simp add: jwt_encode_def Let_def)

lemma jwt_verify_encode:
  "jwt_verify (Some (jwt_encode a p k)) k now =
     (if (case claim_nbf p of None \<Rightarrow> False | Some n \<Rightarrow> n > now div 1000)
      then Inl NotBeforeError
      else if (case claim_exp p of None \<Rightarrow> False | Some e \<Rightarrow> now div 1000 \<ge> e)
      then Inl TokenExpiredError
      else Inr p)"
  by (simp add: jwt_verify_def jwt_encode_nonempty split_jwt_encode decode_encode_payload
      decode_header_encode)

lemma jwt_verify_sign:
  "jwt_verify (Some (jwt_sign u k ms_1h issued)) k now =
     (if now div 1000 < issued div 1000 + 3600
      then Inr \<lparr>claim_username = Some u, claim_iat = issued div 1000, claim_nbf = None,
                claim_exp = Some (issued div 1000 + 3600), claim_rest = []\<rparr>
      else Inl TokenExpiredError)"
  by (simp add: jwt_sign_def Let_def jwt_verify_encode ms_1h_def)

lemma jwt_sign_no_space: "CHR '' '' \<notin> set (jwt_sign u k d issued)"
  by (simp add: jwt_sign_def Let_def jwt_encode_no_space)

lemma extracted_token:
  "CHR '' '' \<notin> set scheme \<Longrightarrow>
     index_js (split_js (CHR '' '') (scheme @ CHR '' '' # rest)) 1 =
       Some (hd (split_js (CHR '' '') rest))"
  using split_js_nonempty [of "CHR '' ''" rest]
  by (cases "split_js (CHR '' '') rest") (simp_all add: split_js_append index_js_def)

lemma unsplit_header: "CHR '' '' \<notin> set h \<Longrightarrow> index_js (split_js (CHR '' '') h) 1 = None"
  by (simp add: split_js_plain index_js_def)

lemma authenticateJWT_verify:
  "authenticateJWT (Some h) now =
     (case jwt_verify (index_js (split_js (CHR '' '') h) 1) JWT_SECRET now of
        Inl err \<Rightarrow> Inl (Response 400 (ErrorJson ''Invalid token provided''))
      | Inr verified \<Rightarrow> Inr verified)"
  by (simp add: authenticateJWT_def)

lemma authenticateJWT_missing:
  "authenticateJWT None now = Inl (Response 400 (ErrorJson ''Invalid token provided''))"
  by (simp add: authenticateJWT_def)

lemma authenticateJWT_unsplit:
  "CHR '' '' \<notin> set h \<Longrightarrow>
     authenticateJWT (Some h) now = Inl (Response 400 (ErrorJson ''Invalid token provided''))"
  using unsplit_header [of h] by (simp add: authenticateJWT_verify jwt_verify_def)

lemma authenticateJWT_scheme:
  assumes "CHR '' '' \<notin> set scheme"
  shows "authenticateJWT (Some (scheme @ CHR '' '' # rest)) now =
     (case jwt_verify (Some (hd (split_js (CHR '' '') rest))) JWT_SECRET now of
        Inl err \<Rightarrow> Inl (Response 400 (ErrorJson ''Invalid token provided''))
      | Inr verified \<Rightarrow> Inr verified)"
  using extracted_token [OF assms, of rest] by (simp add: authenticateJWT_verify)

lemma authenticateJWT_encode:
  assumes "CHR '' '' \<notin> set scheme"
  shows "authenticateJWT (Some (scheme @ CHR '' '' # jwt_encode a p JWT_SECRET)) now =
     (if (case claim_nbf p of None \<Rightarrow> False | Some n \<Rightarrow> n > now div 1000) \<or>
         (case claim_exp p of None \<Rightarrow> False | Some e \<Rightarrow> now div 1000 \<ge> e)
      then Inl (Response 400 (ErrorJson ''Invalid token provided''))
      else Inr p)"
  by (simp add: authenticateJWT_scheme [OF assms] split_js_plain jwt_encode_no_space
      jwt_verify_encode)

section \<open>Properties of the handlers\<close>

lemma post_webtoons_rejected:
  "authenticateJWT token now = Inl r \<Longrightarrow> post_webtoons st token b new_oid now = (r, st)"
  by (simp add: post_webtoons_def)

lemma delete_webtoon_rejected:
  "authenticateJWT token now = Inl r \<Longrightarrow> delete_webtoon st token wid now = (r, st)"
  by (simp add: delete_webtoon_def)

lemma authenticateJWT_failed_verify:
  "jwt_verify (index_js (split_js (CHR '' '') h) 1) JWT_SECRET now = Inl e \<Longrightarrow>
     authenticateJWT (Some h) now = Inl (Response 400 (ErrorJson ''Invalid token provided''))"
  by (simp add: authenticateJWT_verify)

lemma post_webtoons_created:
  assumes "authenticateJWT token now = Inr p"
    and "body_title b = Some t" and "body_description b = Some d"
    and "t \<noteq> []" and "d \<noteq> []" and "connected st"
    and "find (\<lambda>v. oid v = new_oid) (webtoons st) = None"
  shows "post_webtoons st token b new_oid now =
    (Response 201 (WebtoonJson \<lparr>oid = new_oid, title = t, description = d,
        characters = body_characters b\<rparr>),
     st\<lparr>webtoons := webtoons st @ [\<lparr>oid = new_oid, title = t, description = d,
        characters = body_characters b\<rparr>]\<rparr>)"
  using assms by (simp add: post_webtoons_def validateWebtoon_def save_def Let_def)

lemma whole_seconds:
  "(t div 1000 < T div 1000 + 3600) = (t < T + ms_1h - T mod 1000)"
proof -
  have split: "\<And>q r. q * 1000 + r = T \<Longrightarrow> T + 3600000 - r = (q + 3600) * (1000::nat)"
    by simp
  have "T + ms_1h - T mod 1000 = (T div 1000 + 3600) * 1000"
    unfolding ms_1h_def using split [OF div_mult_mod_eq [of T 1000]] by simp
  moreover have "(t div 1000 < T div 1000 + 3600) = (t < (T div 1000 + 3600) * 1000)"
    by (rule div_less_iff_less_mult) simp
  ultimately show ?thesis by simp
qed

lemma get_webtoon_cases:
  "get_webtoon st wid =
     (case castObjectId wid of
        None \<Rightarrow> Response 500 (ErrorMessageJson (CastError wid))
      | Some k \<Rightarrow>
          if \<not> connected st then Response 500 (ErrorMessageJson MongoError)
          else (case find (\<lambda>w. oid w = k) (webtoons st) of
                  None \<Rightarrow> Response 404 (ErrorJson ''Webtoon not found'')
                | Some w \<Rightarrow> Response 200 (WebtoonJson w)))"
  by (simp add: get_webtoon_def findById_def split: option.splits)

lemma find_append_Some: "find P xs = Some x \<Longrightarrow> find P (xs @ ys) = Some x"
  by (induction xs) (auto split: if_splits)

lemma find_append_None: "find P xs = None \<Longrightarrow> find P (xs @ ys) = find P ys"
  by (induction xs) (auto split: if_splits)

lemma users_register_resume:
  "users (snd (register_resume st uname pw drawn_salt now)) =
     users st @ [\<lparr>username = uname, password = bcrypt_hash pw 10 drawn_salt\<rparr>]"
  by (simp add: register_resume_def Let_def)

lemma users_post_register:
  "users (snd (post_register st uname pw drawn_salt now)) =
     (case find (\<lambda>user. username user = uname) (users st) of
        Some existingUser \<Rightarrow> users st
      | None \<Rightarrow> users st @ [\<lparr>username = uname, password = bcrypt_hash pw 10 drawn_salt\<rparr>])"
  by (simp add: post_register_def register_check_def users_register_resume
      split: option.splits)

lemma users_post_webtoons: "users (snd (post_webtoons st token b new_oid now)) = users st"
  by (auto simp: post_webtoons_def save_def Let_def split: sum.splits option.splits if_splits)

lemma users_delete_webtoon: "users (snd (delete_webtoon st token wid now)) = users st"
  by (auto simp: delete_webtoon_def findByIdAndDelete_def
      split: sum.splits option.splits if_splits prod.splits)

lemma users_dispatch: "users (snd (dispatch st r now)) = users st"
proof (cases r)
  case (PostRegister uname pw)
  then show ?thesis by (simp add: register_check_def split: option.splits)
next
  case (PostWebtoons token b new_oid)
  then show ?thesis
    using users_post_webtoons [of st token b new_oid now]
    by (simp add: case_prod_beta)
next
  case (DeleteWebtoon token wid)
  then show ?thesis
    using users_delete_webtoon [of st token wid now]
    by (simp add: case_prod_beta)
qed simp_all

lemma users_app: "users (snd (app st rq)) = users st"
proof (cases "limiter (hits st) (ip rq) (clock rq)")
  case (Pair a tracking)
  show ?thesis
  proof (cases a)
    case Admit
    with Pair show ?thesis
      using users_dispatch [of "st\<lparr>hits := tracking\<rparr>" "route rq" "clock rq"]
      by (simp add: app_def)
  next
    case TooManyRequests
    with Pair show ?thesis by (simp add: app_def)
  qed
qed

lemma users_resume: "\<exists>added. users (snd (resume st i drawn_salt now)) = users st @ added"
proof (cases "i < length (awaiting st)")
  case True
  obtain uname pw where e: "awaiting st ! i = (uname, pw)"
    by (cases "awaiting st ! i")
  have "users (snd (resume st i drawn_salt now)) =
      users st @ [\<lparr>username = uname, password = bcrypt_hash pw 10 drawn_salt\<rparr>]"
    using True e
      users_register_resume [of "st\<lparr>awaiting := take i (awaiting st) @ drop (Suc i) (awaiting st)\<rparr>"
        uname pw drawn_salt now]
    by (simp add: resume_def case_prod_beta)
  then show ?thesis by blast
next
  case False
  then show ?thesis by (simp add: resume_def)
qed

lemma users_step: "\<exists>added. users (snd (step st ev)) = users st @ added"
  by (cases ev) (simp_all add: users_app users_resume)

lemma users_run: "\<exists>added. users (run st evs) = users st @ added"
proof (induction evs arbitrary: st)
  case Nil
  show ?case by simp
next
  case (Cons ev evs)
  obtain a where a: "users (snd (step st ev)) = users st @ a"
    using users_step by blast
  obtain b where b: "users (run (snd (step st ev)) evs) = users (snd (step st ev)) @ b"
    using Cons.IH by blast
  from a b have "users (run st (ev # evs)) = users st @ (a @ b)" by simp
  then show ?case by blast
qed

lemma find_user_run:
  assumes "find P (users st) = Some u"
  shows "find P (users (run st evs)) = Some u"
proof -
  obtain added where "users (run st evs) = users st @ added"
    using users_run by blast
  with assms show ?thesis by (simp add: find_append_Some)
qed

lemma find_user_registered:
  assumes "find (\<lambda>user. username user = U) (users st) = None"
  shows "find (\<lambda>user. username user = U) (users (snd (post_register st U P s now))) =
     Some \<lparr>username = U, password = bcrypt_hash P 10 s\<rparr>"
  using assms by (simp add: users_post_register find_append_None)

lemma find_user_registered_run:
  assumes "find (\<lambda>user. username user = U) (users st) = None"
  shows "find (\<lambda>user. username user = U) (users (run (snd (post_register st U P s now)) evs)) =
     Some \<lparr>username = U, password = bcrypt_hash P 10 s\<rparr>"
  by (rule find_user_run [OF find_user_registered [OF assms]])

lemma post_register_fresh:
  assumes "find (\<lambda>user. username user = U) (users st) = None"
  shows "post_register st U P s now =
     (Response 200 (TokenJson ''User registered successfully'' (jwt_sign U JWT_SECRET ms_1h now)),
      st\<lparr>users := users st @ [\<lparr>username = U, password = bcrypt_hash P 10 s\<rparr>]\<rparr>)"
  using assms by (simp add: post_register_def register_check_def register_resume_def Let_def)

lemma post_register_duplicate:
  assumes "find (\<lambda>user. username user = U) (users st) = Some u"
  shows "post_register st U P s now = (Response 400 (ErrorJson ''User already exists''), st)"
  using assms by (simp add: post_register_def register_check_def)



text \<open>
  A suspended registration that resumes while its username is still free does what
  \<open>post_register\<close> does on the state it resumes in.
\<close>

lemma resume_registers:
  assumes "i < length (awaiting st)" and "awaiting st ! i = (U, P)"
    and "find (\<lambda>user. username user = U) (users st) = None"
  shows "resume st i s now =
     (case post_register
             (st\<lparr>awaiting := take i (awaiting st) @ drop (Suc i) (awaiting st)\<rparr>) U P s now of
        (r, st') \<Rightarrow> (Some r, st'))"
  using assms by (simp add: resume_def post_register_def register_check_def)

section \<open>Properties of the rate limiter\<close>

lemma limiter_reset:
  assumes "tracking key = None \<or> (\<exists>c. tracking key = Some c \<and> windowMs \<le> now - windowStart c)"
  shows "limiter tracking key now =
     (Admit, tracking(key \<mapsto> \<lparr>count = 1, windowStart = now\<rparr>))"
  using assms by (auto simp: limiter_def)

lemma limiter_in_window:
  assumes "tracking key = Some \<lparr>count = n, windowStart = t0\<rparr>" and "now - t0 < windowMs"
  shows "limiter tracking key now =
     (if n < max_per_window then Admit else TooManyRequests,
      tracking(key \<mapsto> \<lparr>count = Suc n, windowStart = t0\<rparr>))"
  using assms by (auto simp: limiter_def Let_def)

lemma limiter_other_origin: "other \<noteq> key \<Longrightarrow> snd (limiter tracking other now) key = tracking key"
  by (auto simp: limiter_def Let_def split: option.splits)

lemma in_window:
  assumes "tracking key = Some \<lparr>count = n, windowStart = t0\<rparr>"
    and "\<forall>t\<in>set ts. t - t0 < windowMs"
  shows "admissions tracking key ts =
       map (\<lambda>i. if i < max_per_window then Admit else TooManyRequests) [n..<n + length ts] \<and>
     tracked tracking key ts key = Some \<lparr>count = n + length ts, windowStart = t0\<rparr>"
  using assms
proof (induction ts arbitrary: tracking n)
  case Nil
  then show ?case by simp
next
  case (Cons t ts)
  from Cons.prems have w: "t - t0 < windowMs" and rest: "\<forall>t\<in>set ts. t - t0 < windowMs"
    by simp_all
  note lim = limiter_in_window [of tracking key n t0 t, OF Cons.prems(1) w]
  let ?next = "tracking(key \<mapsto> \<lparr>count = Suc n, windowStart = t0\<rparr>)"
  have "?next key = Some \<lparr>count = Suc n, windowStart = t0\<rparr>" by simp
  note ih = Cons.IH [of ?next "Suc n", OF this rest]
  have upt: "[n..<n + length (t # ts)] = n # [Suc n..<Suc n + length ts]"
    by (subst upt_rec) simp
  have adm: "admissions tracking key (t # ts) =
      (if n < max_per_window then Admit else TooManyRequests) # admissions ?next key ts"
    by (simp add: lim)
  have trk: "tracked tracking key (t # ts) = tracked ?next key ts"
    by (simp add: lim)
  show ?case
    unfolding upt adm trk conjunct1 [OF ih] conjunct2 [OF ih] by simp
qed

section \<open>The claims about the middleware\<close>

text \<open>
  C1, as the code has it. A request to a protected route (\<^verbatim>\<open>POST /webtoons\<close>,
  \<^verbatim>\<open>DELETE /webtoons/:id\<close>) that has no \<^verbatim>\<open>Authorization\<close> header, or whose header has no
  space to split on, is rejected by \<open>authenticateJWT\<close> with status 400 and the body
  \<^verbatim>\<open>{ error: 'Invalid token provided' }\<close>, and the state is left as it was. The rejection is
  not a separate kind of error: a header whose token fails verification gets the very same
  response.
\<close>

theorem missing_credential_rejected_as_invalid_token:
  "token = None \<or> (\<exists>h. token = Some h \<and> CHR '' '' \<notin> set h) \<Longrightarrow>
     authenticateJWT token now = Inl (Response 400 (ErrorJson ''Invalid token provided'')) \<and>
     post_webtoons st token b new_oid now =
       (Response 400 (ErrorJson ''Invalid token provided''), st) \<and>
     delete_webtoon st token wid now =
       (Response 400 (ErrorJson ''Invalid token provided''), st) \<and>
     (\<forall>h' now' e. jwt_verify (index_js (split_js (CHR '' '') h') 1) JWT_SECRET now' = Inl e \<longrightarrow>
        authenticateJWT (Some h') now' = authenticateJWT token now)"
proof -
  assume a: "token = None \<or> (\<exists>h. token = Some h \<and> CHR '' '' \<notin> set h)"
  have r: "authenticateJWT token now = Inl (Response 400 (ErrorJson ''Invalid token provided''))"
    using a authenticateJWT_missing authenticateJWT_unsplit by blast
  show ?thesis
    using r post_webtoons_rejected [OF r] delete_webtoon_rejected [OF r]
      authenticateJWT_failed_verify
    by simp
qed

theorem missing_credential_rejected_as_invalid_token_witness:
  "authenticateJWT None 0 = Inl (Response 400 (ErrorJson ''Invalid token provided'')) \<and>
   post_webtoons empty_server None
       \<lparr>body_title = Some ''X'', body_description = Some ''Y'', body_characters = None\<rparr>
       ''0123456789ab'' 0 =
     (Response 400 (ErrorJson ''Invalid token provided''), empty_server) \<and>
   delete_webtoon empty_server None ''0123456789ab'' 0 =
     (Response 400 (ErrorJson ''Invalid token provided''), empty_server) \<and>
   CHR '' '' \<notin> set ''Bearer'' \<and>
   authenticateJWT (Some ''Bearer'') 0 =
     Inl (Response 400 (ErrorJson ''Invalid token provided''))"
proof -
  have h: "CHR '' '' \<notin> set ''Bearer''" by simp
  show ?thesis
    using missing_credential_rejected_as_invalid_token
      [of None 0 empty_server
        "\<lparr>body_title = Some ''X'', body_description = Some ''Y'', body_characters = None\<rparr>"
        "''0123456789ab''" "''0123456789ab''"]
      missing_credential_rejected_as_invalid_token [of "Some ''Bearer''" 0]
    by simp
qed

text \<open>
  The claim asks for a rejection distinct from the one of a failed verification. A request
  without the header and a request whose token \<^verbatim>\<open>abc\<close> fails verification get equal
  responses.
\<close>

theorem malformed_credential_distinct_counterexample:
  "index_js (split_js (CHR '' '') ''Bearer abc'') 1 = Some ''abc'' \<and>
   jwt_verify (Some ''abc'') JWT_SECRET 0 = Inl (JsonWebTokenError ''jwt malformed'') \<and>
   authenticateJWT None 0 = authenticateJWT (Some ''Bearer abc'') 0"
  by (simp add: index_js_def jwt_verify_def authenticateJWT_def)

text \<open>
  C2, as the code has it. The middleware never looks at the scheme, the part before the
  first space: a header with any other scheme gets the outcome of the header
  \<^verbatim>\<open>Bearer\<close> with the same rest, and when the part after the first space is a token
  signed with the secret, not expired and not before its \<^verbatim>\<open>nbf\<close>, the request is accepted.
\<close>

theorem scheme_not_inspected:
  "CHR '' '' \<notin> set scheme \<Longrightarrow>
     authenticateJWT (Some (scheme @ CHR '' '' # rest)) now =
       authenticateJWT (Some (''Bearer'' @ CHR '' '' # rest)) now \<and>
     ((\<forall>n. claim_nbf p = Some n \<longrightarrow> n \<le> now div 1000) \<and>
      (\<forall>e. claim_exp p = Some e \<longrightarrow> now div 1000 < e) \<longrightarrow>
        authenticateJWT (Some (scheme @ CHR '' '' # jwt_encode a p JWT_SECRET)) now = Inr p)"
proof -
  assume a: "CHR '' '' \<notin> set scheme"
  have b: "CHR '' '' \<notin> set ''Bearer''" by simp
  have "authenticateJWT (Some (scheme @ CHR '' '' # rest)) now =
       authenticateJWT (Some (''Bearer'' @ CHR '' '' # rest)) now"
    unfolding authenticateJWT_scheme [OF a] authenticateJWT_scheme [OF b] by (rule refl)
  moreover have "(\<forall>n. claim_nbf p = Some n \<longrightarrow> n \<le> now div 1000) \<and>
      (\<forall>e. claim_exp p = Some e \<longrightarrow> now div 1000 < e) \<longrightarrow>
        authenticateJWT (Some (scheme @ CHR '' '' # jwt_encode a p JWT_SECRET)) now = Inr p"
    unfolding authenticateJWT_encode [OF a] by (auto split: option.splits)
  ultimately show ?thesis by (rule conjI)
qed

theorem scheme_not_inspected_witness:
  "CHR '' '' \<notin> set ''Basic'' \<and>
   authenticateJWT (Some (''Basic'' @ CHR '' '' # ''abc'')) 0 =
     authenticateJWT (Some (''Bearer'' @ CHR '' '' # ''abc'')) 0 \<and>
   authenticateJWT (Some (''Basic'' @ CHR '' '' #
       jwt_encode HS256 \<lparr>claim_username = Some ''alice'', claim_iat = 0, claim_nbf = None,
       claim_exp = Some 3600, claim_rest = []\<rparr>
         JWT_SECRET)) 0 =
     Inr \<lparr>claim_username = Some ''alice'', claim_iat = 0, claim_nbf = None,
       claim_exp = Some 3600, claim_rest = []\<rparr>"
proof -
  have h: "CHR '' '' \<notin> set ''Basic''" by simp
  show ?thesis
    using h scheme_not_inspected [OF h, where rest = "''abc''" and now = 0 and a = HS256 and
        p = "\<lparr>claim_username = Some ''alice'', claim_iat = 0, claim_nbf = None,
       claim_exp = Some 3600, claim_rest = []\<rparr>"]
    by simp
qed

text \<open>
  The claim asks that a header whose scheme is not \<^verbatim>\<open>Bearer\<close> be rejected. With the
  scheme \<^verbatim>\<open>Basic\<close> and a token the service has just issued, the middleware accepts and
  \<^verbatim>\<open>POST /webtoons\<close> stores the document.
\<close>

theorem bearer_scheme_required_counterexample:
  "authenticateJWT (Some (''Basic '' @ jwt_sign ''alice'' JWT_SECRET ms_1h 0)) 0 =
     Inr \<lparr>claim_username = Some ''alice'', claim_iat = 0, claim_nbf = None,
       claim_exp = Some 3600, claim_rest = []\<rparr> \<and>
   post_webtoons empty_server (Some (''Basic '' @ jwt_sign ''alice'' JWT_SECRET ms_1h 0))
       \<lparr>body_title = Some ''X'', body_description = Some ''Y'', body_characters = None\<rparr>
       ''0123456789ab'' 0 =
     (Response 201 (WebtoonJson \<lparr>oid = ''0123456789ab'', title = ''X'', description = ''Y'',
         characters = None\<rparr>),
      empty_server\<lparr>webtoons := [\<lparr>oid = ''0123456789ab'', title = ''X'', description = ''Y'',
         characters = None\<rparr>]\<rparr>)"
proof -
  have h: "CHR '' '' \<notin> set ''Basic''" by simp
  have a: "authenticateJWT (Some (''Basic '' @ jwt_sign ''alice'' JWT_SECRET ms_1h 0)) 0 =
     Inr \<lparr>claim_username = Some ''alice'', claim_iat = 0, claim_nbf = None,
       claim_exp = Some 3600, claim_rest = []\<rparr>"
    using authenticateJWT_scheme [OF h, of "jwt_sign ''alice'' JWT_SECRET ms_1h 0" 0]
    by (simp add: split_js_plain jwt_sign_no_space jwt_verify_sign)
  show ?thesis
    using a post_webtoons_created [OF a, of
        "\<lparr>body_title = Some ''X'', body_description = Some ''Y'', body_characters = None\<rparr>"
        "''X''" "''Y''" empty_server "''0123456789ab''"]
    by (simp add: empty_server_def)
qed

section \<open>The claims about tokens\<close>

text \<open>
  C6, as the code has it. The library's clock counts whole seconds: a token issued at time
  \<open>T\<close> (milliseconds) carries \<open>exp = T div 1000 + 3600\<close>, and verification at time
  \<open>t\<close> accepts it exactly when \<open>t div 1000 < exp\<close>. So the token is accepted at every
  time from \<open>T\<close> up to the start of the second \<open>exp\<close>, which is \<open>T + 1h\<close> less the
  fraction of a second of \<open>T\<close>, and rejected from then on, in particular at every
  time from \<open>T + 1h\<close> on, where the middleware answers 400.
\<close>

theorem token_lifetime_in_whole_seconds:
  "jwt_verify (Some (jwt_sign u JWT_SECRET ms_1h T)) JWT_SECRET t =
     (if t div 1000 < T div 1000 + 3600
      then Inr \<lparr>claim_username = Some u, claim_iat = T div 1000, claim_nbf = None,
                claim_exp = Some (T div 1000 + 3600), claim_rest = []\<rparr>
      else Inl TokenExpiredError) \<and>
   (T \<le> t \<and> t < T + ms_1h - T mod 1000 \<longrightarrow>
      jwt_verify (Some (jwt_sign u JWT_SECRET ms_1h T)) JWT_SECRET t =
        Inr \<lparr>claim_username = Some u, claim_iat = T div 1000, claim_nbf = None,
             claim_exp = Some (T div 1000 + 3600), claim_rest = []\<rparr>) \<and>
   (T + ms_1h - T mod 1000 \<le> t \<longrightarrow>
      jwt_verify (Some (jwt_sign u JWT_SECRET ms_1h T)) JWT_SECRET t = Inl TokenExpiredError) \<and>
   (T + ms_1h \<le> t \<longrightarrow>
      jwt_verify (Some (jwt_sign u JWT_SECRET ms_1h T)) JWT_SECRET t = Inl TokenExpiredError \<and>
      authenticateJWT (Some (''Bearer '' @ jwt_sign u JWT_SECRET ms_1h T)) t =
        Inl (Response 400 (ErrorJson ''Invalid token provided'')))"
proof -
  have b: "CHR '' '' \<notin> set ''Bearer''" by simp
  have v: "jwt_verify (Some (jwt_sign u JWT_SECRET ms_1h T)) JWT_SECRET t =
     (if t < T + ms_1h - T mod 1000
      then Inr \<lparr>claim_username = Some u, claim_iat = T div 1000, claim_nbf = None,
                claim_exp = Some (T div 1000 + 3600), claim_rest = []\<rparr>
      else Inl TokenExpiredError)"
    by (simp add: jwt_verify_sign whole_seconds)
  have a: "authenticateJWT (Some (''Bearer '' @ jwt_sign u JWT_SECRET ms_1h T)) t =
     (case jwt_verify (Some (jwt_sign u JWT_SECRET ms_1h T)) JWT_SECRET t of
        Inl err \<Rightarrow> Inl (Response 400 (ErrorJson ''Invalid token provided''))
      | Inr verified \<Rightarrow> Inr verified)"
    using authenticateJWT_scheme [OF b, of "jwt_sign u JWT_SECRET ms_1h T" t]
    by (simp add: split_js_plain jwt_sign_no_space)
  have late: "T + ms_1h \<le> t \<Longrightarrow> \<not> t < T + ms_1h - T mod 1000" by arith
  show ?thesis
    unfolding a v whole_seconds using late by simp
qed

theorem token_lifetime_in_whole_seconds_witness:
  "jwt_verify (Some (jwt_sign ''alice'' JWT_SECRET ms_1h 1500)) JWT_SECRET 3600999 =
     Inr \<lparr>claim_username = Some ''alice'', claim_iat = 1, claim_nbf = None,
       claim_exp = Some 3601, claim_rest = []\<rparr> \<and>
   jwt_verify (Some (jwt_sign ''alice'' JWT_SECRET ms_1h 1500)) JWT_SECRET 3601000 =
     Inl TokenExpiredError \<and>
   jwt_verify (Some (jwt_sign ''alice'' JWT_SECRET ms_1h 1500)) JWT_SECRET 3601500 =
     Inl TokenExpiredError \<and>
   authenticateJWT (Some (''Bearer '' @ jwt_sign ''alice'' JWT_SECRET ms_1h 1500)) 3601500 =
     Inl (Response 400 (ErrorJson ''Invalid token provided''))"
  using token_lifetime_in_whole_seconds [of "''alice''" 1500 3600999]
    token_lifetime_in_whole_seconds [of "''alice''" 1500 3601000]
    token_lifetime_in_whole_seconds [of "''alice''" 1500 3601500]
  by (simp add: ms_1h_def)

text \<open>
  The claim asks for acceptance throughout \<open>[T, T + 1h)\<close>. A token issued at 1 ms is
  already rejected at 3600000 ms, which is before 1 ms + 1h.
\<close>

theorem token_lifetime_one_hour_counterexample:
  "(1::nat) \<le> 3600000 \<and> (3600000::nat) < 1 + ms_1h \<and>
   jwt_verify (Some (jwt_sign ''alice'' JWT_SECRET ms_1h 1)) JWT_SECRET 3600000 =
     Inl TokenExpiredError"
  using jwt_verify_sign [of "''alice''" JWT_SECRET 1 3600000] by (simp add: ms_1h_def)

text \<open>
  C9, as the code has it. The middleware itself never looks into the payload: it accepts
  every token that \<^verbatim>\<open>jwt.verify\<close> accepts and hands the payload on as \<^verbatim>\<open>req.user\<close>. So a
  token signed with \<open>JWT_SECRET\<close> under any of the admitted algorithms, not expired and
  not before its \<^verbatim>\<open>nbf\<close>, passes whatever else its payload holds, also without a
  \<^verbatim>\<open>username\<close>, and \<^verbatim>\<open>POST /webtoons\<close> with such a token and a valid body stores the
  document and answers 201.
\<close>

theorem payload_not_inspected:
  "(\<forall>n. claim_nbf p = Some n \<longrightarrow> n \<le> now div 1000) \<Longrightarrow>
   (\<forall>e. claim_exp p = Some e \<longrightarrow> now div 1000 < e) \<Longrightarrow>
     authenticateJWT (Some (''Bearer '' @ jwt_encode a p JWT_SECRET)) now = Inr p \<and>
     (body_title b = Some t \<and> body_description b = Some d \<and> t \<noteq> [] \<and> d \<noteq> [] \<and>
      connected st \<and> find (\<lambda>v. oid v = new_oid) (webtoons st) = None \<longrightarrow>
        post_webtoons st (Some (''Bearer '' @ jwt_encode a p JWT_SECRET)) b new_oid now =
          (Response 201 (WebtoonJson \<lparr>oid = new_oid, title = t, description = d,
              characters = body_characters b\<rparr>),
           st\<lparr>webtoons := webtoons st @ [\<lparr>oid = new_oid, title = t, description = d,
              characters = body_characters b\<rparr>]\<rparr>))"
proof -
  assume active: "\<forall>n. claim_nbf p = Some n \<longrightarrow> n \<le> now div 1000"
    and live: "\<forall>e. claim_exp p = Some e \<longrightarrow> now div 1000 < e"
  have b: "CHR '' '' \<notin> set ''Bearer''" by simp
  have a: "authenticateJWT (Some (''Bearer '' @ jwt_encode a p JWT_SECRET)) now = Inr p"
    using active live authenticateJWT_encode [OF b, of a p now]
    by (auto split: option.splits)
  show ?thesis
    using a post_webtoons_created [OF a] by blast
qed

theorem payload_not_inspected_witness:
  "authenticateJWT
     (Some (''Bearer '' @
        jwt_encode HS512
          \<lparr>claim_username = None, claim_iat = 0, claim_nbf = Some 0, claim_exp = None,
           claim_rest = ''admin''\<rparr> JWT_SECRET)) 0 =
     Inr \<lparr>claim_username = None, claim_iat = 0, claim_nbf = Some 0, claim_exp = None,
          claim_rest = ''admin''\<rparr> \<and>
   post_webtoons empty_server
     (Some (''Bearer '' @
        jwt_encode HS512
          \<lparr>claim_username = None, claim_iat = 0, claim_nbf = Some 0, claim_exp = None,
           claim_rest = ''admin''\<rparr> JWT_SECRET))
     \<lparr>body_title = Some ''X'', body_description = Some ''Y'', body_characters = None\<rparr>
     ''0123456789ab'' 0 =
     (Response 201 (WebtoonJson \<lparr>oid = ''0123456789ab'', title = ''X'', description = ''Y'',
         characters = None\<rparr>),
      empty_server\<lparr>webtoons := [\<lparr>oid = ''0123456789ab'', title = ''X'', description = ''Y'',
         characters = None\<rparr>]\<rparr>)"
  using payload_not_inspected [where a = HS512
      and p = "\<lparr>claim_username = None, claim_iat = 0, claim_nbf = Some 0, claim_exp = None,
           claim_rest = ''admin''\<rparr>"
      and now = 0 and st = empty_server and new_oid = "''0123456789ab''" and t = "''X''"
      and d = "''Y''"
      and b = "\<lparr>body_title = Some ''X'', body_description = Some ''Y'', body_characters = None\<rparr>"]
  by (simp add: empty_server_def)

text \<open>
  The claim asks that every token that is signed with the secret and not expired pass,
  whatever its payload. A token signed with \<open>JWT_SECRET\<close> that expires at second 3600 and
  whose payload says \<^verbatim>\<open>nbf = 10\<close> is refused at time 0 with 400.
\<close>

theorem any_payload_accepted_counterexample:
  "jwt_verify
     (Some (jwt_encode HS256
        \<lparr>claim_username = Some ''alice'', claim_iat = 0, claim_nbf = Some 10,
         claim_exp = Some 3600, claim_rest = []\<rparr> JWT_SECRET)) JWT_SECRET 0 =
     Inl NotBeforeError \<and>
   authenticateJWT
     (Some (''Bearer '' @
        jwt_encode HS256
          \<lparr>claim_username = Some ''alice'', claim_iat = 0, claim_nbf = Some 10,
           claim_exp = Some 3600, claim_rest = []\<rparr> JWT_SECRET)) 0 =
     Inl (Response 400 (ErrorJson ''Invalid token provided''))"
proof -
  have b: "CHR '' '' \<notin> set ''Bearer''" by simp
  show ?thesis
    using authenticateJWT_encode [OF b, of HS256
        "\<lparr>claim_username = Some ''alice'', claim_iat = 0, claim_nbf = Some 10,
           claim_exp = Some 3600, claim_rest = []\<rparr>" 0]
    by (simp add: jwt_verify_encode)
qed

section \<open>The claims about the routes\<close>

text \<open>
  C3, as the code has it. \<^verbatim>\<open>GET /webtoons/:id\<close> answers 404 for every id that the id type
  of the store accepts and that no stored document has, when the store answers. For an id
  whose shape the id type does not accept, the lookup throws and the handler answers 500
  with the message of the error.
\<close>

theorem absent_id_not_found_or_cast_error:
  "(castObjectId wid = Some k \<and> connected st \<and> find (\<lambda>w. oid w = k) (webtoons st) = None \<longrightarrow>
      get_webtoon st wid = Response 404 (ErrorJson ''Webtoon not found'')) \<and>
   (castObjectId wid = None \<longrightarrow>
      get_webtoon st wid = Response 500 (ErrorMessageJson (CastError wid)))"
  by (simp add: get_webtoon_cases)

theorem absent_id_not_found_or_cast_error_witness:
  "castObjectId ''303132333435363738396162'' = Some ''0123456789ab'' \<and>
   connected empty_server \<and>
   find (\<lambda>w. oid w = ''0123456789ab'') (webtoons empty_server) = None \<and>
   get_webtoon empty_server ''303132333435363738396162'' =
     Response 404 (ErrorJson ''Webtoon not found'') \<and>
   castObjectId ''0123456789ab'' = None \<and>
   get_webtoon empty_server ''0123456789ab'' =
     Response 500 (ErrorMessageJson (CastError ''0123456789ab''))"
proof -
  have c: "castObjectId ''303132333435363738396162'' = Some ''0123456789ab''"
    by code_simp
  have e: "connected empty_server"
    "find (\<lambda>w. oid w = ''0123456789ab'') (webtoons empty_server) = None"
    by (simp_all add: empty_server_def)
  have n: "castObjectId ''0123456789ab'' = None"
    by (simp add: castObjectId_def)
  note found = absent_id_not_found_or_cast_error
    [where wid = "''303132333435363738396162''" and k = "''0123456789ab''" and st = empty_server]
  note cast = absent_id_not_found_or_cast_error
    [where wid = "''0123456789ab''" and st = empty_server]
  show ?thesis
    using c e n found cast by (simp only: simp_thms)
qed

text \<open>
  The claim asks for 404 for every absent id. On an empty collection no document has any
  id, and the id \<^verbatim>\<open>abc\<close> is answered with 500.
\<close>

theorem absent_id_not_found_counterexample:
  "find (\<lambda>w. oid w = ''abc'') (webtoons empty_server) = None \<and>
   (\<forall>k. find (\<lambda>w. oid w = k) (webtoons empty_server) = None) \<and>
   get_webtoon empty_server ''abc'' = Response 500 (ErrorMessageJson (CastError ''abc''))"
  by (simp add: get_webtoon_cases castObjectId_def empty_server_def)

text \<open>
  C8. The two failures of \<^verbatim>\<open>POST /login\<close> cannot be told apart: for a username that is
  not registered in one run, and registered with a hash the password does not match in
  another, both runs answer status 400 with the body \<^verbatim>\<open>{ error: 'Invalid credentials' }\<close>.
\<close>

theorem login_failures_indistinguishable:
  "find (\<lambda>user. username user = U) (users st1) = None \<Longrightarrow>
   find (\<lambda>user. username user = U) (users st2) = Some u \<Longrightarrow>
   \<not> bcrypt_compare P (password u) \<Longrightarrow>
     post_login st1 U P now1 = Response 400 (ErrorJson ''Invalid credentials'') \<and>
     post_login st2 U P now2 = Response 400 (ErrorJson ''Invalid credentials'')"
  by (simp add: post_login_def)

theorem login_failures_indistinguishable_witness:
  "find (\<lambda>user. username user = ''alice'') (users empty_server) = None \<and>
   find (\<lambda>user. username user = ''alice'')
     (users (snd (post_register empty_server ''alice'' ''secret'' ''salt'' 0))) =
     Some \<lparr>username = ''alice'', password = bcrypt_hash ''secret'' 10 ''salt''\<rparr> \<and>
   \<not> bcrypt_compare ''guess'' (bcrypt_hash ''secret'' 10 ''salt'') \<and>
   post_login empty_server ''alice'' ''guess'' 7 = Response 400 (ErrorJson ''Invalid credentials'') \<and>
   post_login (snd (post_register empty_server ''alice'' ''secret'' ''salt'' 0)) ''alice'' ''guess'' 9 =
     Response 400 (ErrorJson ''Invalid credentials'')"
proof -
  have h1: "find (\<lambda>user. username user = ''alice'') (users empty_server) = None"
    by (simp add: empty_server_def)
  have h2: "find (\<lambda>user. username user = ''alice'')
     (users (snd (post_register empty_server ''alice'' ''secret'' ''salt'' 0))) =
     Some \<lparr>username = ''alice'', password = bcrypt_hash ''secret'' 10 ''salt''\<rparr>"
    by (simp add: post_register_def register_check_def register_resume_def empty_server_def
        Let_def)
  have h3: "\<not> bcrypt_compare ''guess''
      (password \<lparr>username = ''alice'', password = bcrypt_hash ''secret'' 10 ''salt''\<rparr>)"
    by (simp add: bcrypt_compare_def bcrypt_hash_def)
  show ?thesis
    using h1 h2 h3 login_failures_indistinguishable [OF h1 h2 h3, of 7 9] by simp
qed

section \<open>The claims about the credential store\<close>

text \<open>
  What holds of \<^verbatim>\<open>POST /register\<close> when its two steps run with nothing in between: for a
  username that no stored user has it answers 200 with a token and appends the user, and
  every registration of that username that starts later, after any events in between,
  answers 400 \<^verbatim>\<open>User already exists\<close> and returns the state it was given.
\<close>

lemma register_in_sequence:
  "find (\<lambda>user. username user = U) (users st) = None \<Longrightarrow>
     post_register st U P s now =
       (Response 200 (TokenJson ''User registered successfully'' (jwt_sign U JWT_SECRET ms_1h now)),
        st\<lparr>users := users st @ [\<lparr>username = U, password = bcrypt_hash P 10 s\<rparr>]\<rparr>) \<and>
     post_register (run (snd (post_register st U P s now)) evs) U P2 s2 now2 =
       (Response 400 (ErrorJson ''User already exists''),
        run (snd (post_register st U P s now)) evs)"
  using post_register_fresh post_register_duplicate [OF find_user_registered_run]
  by blast

text \<open>
  C4 asks that after a successful registration of \<open>U\<close> every other registration of
  \<open>U\<close> fail and leave the store as it was. The handler reads \<^verbatim>\<open>users\<close> before
  \<^verbatim>\<open>await bcrypt.hash\<close> and pushes after it, so a second registration that arrives while
  the first one waits passes the check as well. On a fresh process: \<^verbatim>\<open>alice\<close> registers
  with \<^verbatim>\<open>secret\<close>, then with \<^verbatim>\<open>other\<close>, then the two hashes resolve. Both requests are
  answered 200 with a token, \<^verbatim>\<open>users\<close> holds \<^verbatim>\<open>alice\<close> twice, and the second password
  cannot log in.
\<close>

theorem register_race:
  "answers empty_server
     [Arrives \<lparr>ip = ''::1'', clock = 0, route = PostRegister ''alice'' ''secret''\<rparr>,
      Arrives \<lparr>ip = ''::1'', clock = 1, route = PostRegister ''alice'' ''other''\<rparr>,
      HashResolves 0 ''salt'' 100,
      HashResolves 0 ''pepper'' 101] =
     [None, None,
      Some (Response 200 (TokenJson ''User registered successfully''
        (jwt_sign ''alice'' JWT_SECRET ms_1h 100))),
      Some (Response 200 (TokenJson ''User registered successfully''
        (jwt_sign ''alice'' JWT_SECRET ms_1h 101)))] \<and>
   users (run empty_server
     [Arrives \<lparr>ip = ''::1'', clock = 0, route = PostRegister ''alice'' ''secret''\<rparr>,
      Arrives \<lparr>ip = ''::1'', clock = 1, route = PostRegister ''alice'' ''other''\<rparr>,
      HashResolves 0 ''salt'' 100,
      HashResolves 0 ''pepper'' 101]) =
     [\<lparr>username = ''alice'', password = bcrypt_hash ''secret'' 10 ''salt''\<rparr>,
      \<lparr>username = ''alice'', password = bcrypt_hash ''other'' 10 ''pepper''\<rparr>] \<and>
   post_login (run empty_server
     [Arrives \<lparr>ip = ''::1'', clock = 0, route = PostRegister ''alice'' ''secret''\<rparr>,
      Arrives \<lparr>ip = ''::1'', clock = 1, route = PostRegister ''alice'' ''other''\<rparr>,
      HashResolves 0 ''salt'' 100,
      HashResolves 0 ''pepper'' 101]) ''alice'' ''other'' 200 =
     Response 400 (ErrorJson ''Invalid credentials'')"
proof -
  let ?st1 = "\<lparr>users = [], webtoons = [], connected = True,
      hits = [''::1'' \<mapsto> \<lparr>count = 1, windowStart = 0\<rparr>],
      awaiting = [(''alice'', ''secret'')]\<rparr>"
  let ?st2 = "\<lparr>users = [], webtoons = [], connected = True,
      hits = [''::1'' \<mapsto> \<lparr>count = 2, windowStart = 0\<rparr>],
      awaiting = [(''alice'', ''secret''), (''alice'', ''other'')]\<rparr>"
  let ?st3 = "\<lparr>users = [\<lparr>username = ''alice'', password = bcrypt_hash ''secret'' 10 ''salt''\<rparr>],
      webtoons = [], connected = True,
      hits = [''::1'' \<mapsto> \<lparr>count = 2, windowStart = 0\<rparr>],
      awaiting = [(''alice'', ''other'')]\<rparr>"
  let ?st4 = "\<lparr>users = [\<lparr>username = ''alice'', password = bcrypt_hash ''secret'' 10 ''salt''\<rparr>,
        \<lparr>username = ''alice'', password = bcrypt_hash ''other'' 10 ''pepper''\<rparr>],
      webtoons = [], connected = True,
      hits = [''::1'' \<mapsto> \<lparr>count = 2, windowStart = 0\<rparr>],
      awaiting = []\<rparr>"
  have s1: "app empty_server \<lparr>ip = ''::1'', clock = 0, route = PostRegister ''alice'' ''secret''\<rparr> =
      (None, ?st1)"
    by (simp add: app_def limiter_def empty_server_def register_check_def)
  have s2: "app ?st1 \<lparr>ip = ''::1'', clock = 1, route = PostRegister ''alice'' ''other''\<rparr> =
      (None, ?st2)"
    by (simp add: app_def limiter_def register_check_def windowMs_def max_per_window_def
        Let_def numeral_2_eq_2)
  have s3: "resume ?st2 0 ''salt'' 100 =
      (Some (Response 200 (TokenJson ''User registered successfully''
        (jwt_sign ''alice'' JWT_SECRET ms_1h 100))), ?st3)"
    by (simp add: resume_def register_resume_def Let_def)
  have s4: "resume ?st3 0 ''pepper'' 101 =
      (Some (Response 200 (TokenJson ''User registered successfully''
        (jwt_sign ''alice'' JWT_SECRET ms_1h 101))), ?st4)"
    by (simp add: resume_def register_resume_def Let_def)
  have l: "post_login ?st4 ''alice'' ''other'' 200 = Response 400 (ErrorJson ''Invalid credentials'')"
    by (simp add: post_login_def Let_def bcrypt_compare_def bcrypt_hash_def)
  have u: "users ?st4 =
      [\<lparr>username = ''alice'', password = bcrypt_hash ''secret'' 10 ''salt''\<rparr>,
       \<lparr>username = ''alice'', password = bcrypt_hash ''other'' 10 ''pepper''\<rparr>]"
    by simp
  show ?thesis
    by (simp only: answers.simps run.simps step.simps s1 s2 s3 s4 l u fst_conv snd_conv
        simp_thms)
qed



text \<open>
  C10. The user list is append-only: an event, a request that arrives or a suspended
  registration that resumes, and so any sequence of events in any interleaving, leaves the
  list as it was or extends it at the end. A stored user is therefore found again, with the
  same hash, after any events; the set of usernames only grows; and a user who has just
  been registered stays registered with the hash of that registration.
\<close>

theorem users_append_only:
  "(\<exists>added. users (snd (step st ev)) = users st @ added) \<and>
   (\<exists>added. users (run st evs) = users st @ added) \<and>
   username ` set (users st) \<subseteq> username ` set (users (run st evs)) \<and>
   (find (\<lambda>user. username user = U) (users st) = Some u \<longrightarrow>
      find (\<lambda>user. username user = U) (users (run st evs)) = Some u) \<and>
   (find (\<lambda>user. username user = U) (users st) = None \<longrightarrow>
      find (\<lambda>user. username user = U) (users (run (snd (post_register st U P s now)) evs)) =
        Some \<lparr>username = U, password = bcrypt_hash P 10 s\<rparr>)"
proof -
  obtain added where a: "users (run st evs) = users st @ added"
    using users_run by blast
  have "username ` set (users st) \<subseteq> username ` set (users (run st evs))"
    unfolding a by auto
  moreover note users_step [of st ev] users_run [of st evs]
  moreover have "find (\<lambda>user. username user = U) (users st) = Some u \<longrightarrow>
      find (\<lambda>user. username user = U) (users (run st evs)) = Some u"
    using find_user_run by blast
  moreover have "find (\<lambda>user. username user = U) (users st) = None \<longrightarrow>
      find (\<lambda>user. username user = U) (users (run (snd (post_register st U P s now)) evs)) =
        Some \<lparr>username = U, password = bcrypt_hash P 10 s\<rparr>"
    using find_user_registered_run by blast
  ultimately show ?thesis by (simp only: simp_thms)
qed

theorem users_append_only_witness:
  "find (\<lambda>user. username user = ''alice'') (users empty_server) = None \<and>
   find (\<lambda>user. username user = ''alice'')
     (users (run (snd (post_register empty_server ''alice'' ''secret'' ''salt'' 0))
        [Arrives \<lparr>ip = ''::1'', clock = 5, route = PostRegister ''alice'' ''other''\<rparr>,
         HashResolves 0 ''pepper'' 6,
         Arrives \<lparr>ip = ''::1'', clock = 7, route = DeleteWebtoon None ''abc''\<rparr>])) =
     Some \<lparr>username = ''alice'', password = bcrypt_hash ''secret'' 10 ''salt''\<rparr>"
proof -
  have h: "find (\<lambda>user. username user = ''alice'') (users empty_server) = None"
    by (simp add: empty_server_def)
  note r = users_append_only [where st = empty_server and U = "''alice''" and P = "''secret''"
      and s = "''salt''" and now = 0 and evs =
        "[Arrives \<lparr>ip = ''::1'', clock = 5, route = PostRegister ''alice'' ''other''\<rparr>,
          HashResolves 0 ''pepper'' 6,
          Arrives \<lparr>ip = ''::1'', clock = 7, route = DeleteWebtoon None ''abc''\<rparr>]"]
  show ?thesis
    using h r by (simp only: simp_thms)
qed

section \<open>The claim about the rate limiter\<close>

text \<open>
  C7. An origin that is unseen, or whose window has elapsed, makes a request at \<open>t0\<close> and
  further requests inside the window \<open>[t0, t0 + windowMs)\<close>. The gate admits the first
  100 of them and rejects every later one: with exactly 100 requests all are admitted, and
  the 101st inside the window is rejected with \<open>TooManyRequests\<close>. A request at or after
  \<open>t0 + windowMs\<close> is admitted again and resets the entry to \<open>count = 1\<close>. The
  requests of another origin leave the entry of this one alone.
\<close>

theorem admission_gate_window:
  "tracking key = None \<or> (\<exists>c. tracking key = Some c \<and> windowMs \<le> t0 - windowStart c) \<Longrightarrow>
   \<forall>t\<in>set ts. t0 \<le> t \<and> t < t0 + windowMs \<Longrightarrow>
     admissions tracking key (t0 # ts) =
       map (\<lambda>i. if i < max_per_window then Admit else TooManyRequests) [0..<Suc (length ts)] \<and>
     (length ts = 99 \<longrightarrow>
        admissions tracking key (t0 # ts) = replicate 100 Admit \<and>
        (t0 \<le> t \<and> t < t0 + windowMs \<longrightarrow>
           fst (limiter (tracked tracking key (t0 # ts)) key t) = TooManyRequests)) \<and>
     (t0 + windowMs \<le> t' \<longrightarrow>
        limiter (tracked tracking key (t0 # ts)) key t' =
          (Admit, (tracked tracking key (t0 # ts))(key \<mapsto> \<lparr>count = 1, windowStart = t'\<rparr>))) \<and>
     (other \<noteq> key \<longrightarrow> snd (limiter tracking other t'') key = tracking key)"
proof -
  assume start: "tracking key = None \<or> (\<exists>c. tracking key = Some c \<and> windowMs \<le> t0 - windowStart c)"
    and within: "\<forall>t\<in>set ts. t0 \<le> t \<and> t < t0 + windowMs"
  let ?first = "tracking(key \<mapsto> \<lparr>count = 1, windowStart = t0\<rparr>)"
  have first: "limiter tracking key t0 = (Admit, ?first)"
    by (rule limiter_reset [of tracking key t0, OF start])
  have entry: "?first key = Some \<lparr>count = 1, windowStart = t0\<rparr>" by simp
  have w: "\<forall>t\<in>set ts. t - t0 < windowMs"
    using within by auto
  note rest = in_window [of ?first key 1 t0 ts, OF entry w]
  have trk: "tracked tracking key (t0 # ts) = tracked ?first key ts"
    by (simp add: first)
  have after: "tracked tracking key (t0 # ts) key =
      Some \<lparr>count = Suc (length ts), windowStart = t0\<rparr>"
    unfolding trk conjunct2 [OF rest] by simp
  have upt: "[0..<Suc (length ts)] = 0 # [1..<1 + length ts]"
    by (subst upt_rec) simp
  have adm: "admissions tracking key (t0 # ts) = Admit # admissions ?first key ts"
    by (simp add: first)
  have all: "admissions tracking key (t0 # ts) =
       map (\<lambda>i. if i < max_per_window then Admit else TooManyRequests) [0..<Suc (length ts)]"
    unfolding upt adm conjunct1 [OF rest] by (simp add: max_per_window_def)
  have hundred: "length ts = 99 \<Longrightarrow> admissions tracking key (t0 # ts) = replicate 100 Admit"
  proof -
    assume l: "length ts = 99"
    have "map (\<lambda>i. if i < max_per_window then Admit else TooManyRequests) [0..<100] =
        map (\<lambda>i. Admit) [0..<100]"
      by (rule map_cong) (simp_all add: max_per_window_def)
    also have "\<dots> = replicate 100 Admit"
      by (simp only: map_replicate_const length_upt diff_zero)
    finally show ?thesis
      using all l by simp
  qed
  have next_one: "length ts = 99 \<Longrightarrow> t0 \<le> t \<Longrightarrow> t < t0 + windowMs \<Longrightarrow>
      fst (limiter (tracked tracking key (t0 # ts)) key t) = TooManyRequests"
  proof -
    assume l: "length ts = 99" and "t0 \<le> t" and "t < t0 + windowMs"
    then have "t - t0 < windowMs" by arith
    from limiter_in_window [of "tracked tracking key (t0 # ts)" key "Suc (length ts)" t0 t, OF after this] l show ?thesis
      by (simp add: max_per_window_def)
  qed
  have resume: "t0 + windowMs \<le> t' \<Longrightarrow>
      limiter (tracked tracking key (t0 # ts)) key t' =
        (Admit, (tracked tracking key (t0 # ts))(key \<mapsto> \<lparr>count = 1, windowStart = t'\<rparr>))"
  proof -
    assume "t0 + windowMs \<le> t'"
    then have "windowMs \<le> t' - t0" by arith
    with after have "tracked tracking key (t0 # ts) key = None \<or>
        (\<exists>c. tracked tracking key (t0 # ts) key = Some c \<and> windowMs \<le> t' - windowStart c)"
      by simp
    then show ?thesis
      by (rule limiter_reset [of "tracked tracking key (t0 # ts)" key t'])
  qed
  show ?thesis
    using all hundred next_one resume limiter_other_origin [of other key tracking t'']
    by blast
qed

theorem admission_gate_window_witness:
  "admissions Map.empty ''::1'' (0 # replicate 99 5) = replicate 100 Admit \<and>
   fst (limiter (tracked Map.empty ''::1'' (0 # replicate 99 5)) ''::1'' 6) = TooManyRequests \<and>
   limiter (tracked Map.empty ''::1'' (0 # replicate 99 5)) ''::1'' windowMs =
     (Admit, (tracked Map.empty ''::1'' (0 # replicate 99 5))
        (''::1'' \<mapsto> \<lparr>count = 1, windowStart = windowMs\<rparr>))"
proof -
  have h1: "Map.empty ''::1'' = None \<or>
      (\<exists>c. Map.empty ''::1'' = Some c \<and> windowMs \<le> 0 - windowStart c)"
    by simp
  have h2: "\<forall>t\<in>set (replicate 99 5). 0 \<le> t \<and> t < 0 + windowMs"
    by (simp add: windowMs_def)
  have h3: "length (replicate 99 (5::nat)) = 99" "(0::nat) \<le> 6 \<and> 6 < 0 + windowMs"
    "0 + windowMs \<le> windowMs"
    by (simp_all add: windowMs_def)
  note r = admission_gate_window [where tracking = Map.empty and key = "''::1''" and ?t0.0 = 0
      and ts = "replicate 99 5" and t = 6 and t' = windowMs, OF h1 h2, THEN conjunct2]
  show ?thesis
    using h3 r by (simp only: simp_thms)
qed

end
